theory Spec2Isabelle
  imports Main
begin

section \<open>Python values\<close>

text \<open>
  A Python \<open>str\<close> is a sequence of Unicode code points and \<open>len\<close> counts code points,
  so a string is a list of code points. \<open>lit\<close> turns an ASCII literal of the source
  into that representation.
\<close>

type_synonym py_str = "nat list"

definition lit :: "string \<Rightarrow> py_str" where
  "lit s = map of_char s"

text \<open>
  The objects of the remote SDK are attribute-probed by the code (\<open>hasattr\<close>,
  \<open>getattr\<close> with a default, \<open>try ... except AttributeError\<close>). An attribute is
  therefore either absent from the object (reading it raises \<open>AttributeError\<close>,
  \<open>hasattr\<close> is false), present with the value \<open>None\<close>, or present with a value.
\<close>

datatype 'a attr = Absent | PyNone | Val 'a

text \<open>
  The exceptions the modelled code raises. \<open>ValueError\<close> carries its fixed
  message; \<open>TextTooLong n\<close> is \<open>ValueError(f"Text must be less than {n}
  characters")\<close>, \<open>HeadlineGenerationFailed n\<close> is \<open>Exception(f"Failed to generate a
  valid headline after {n} retries")\<close>, and \<open>ServiceError\<close> is whatever a call of the
  generative service raises.
\<close>

datatype py_exc =
    AttributeError
  | IndexError
  | ValueError py_str
  | TextTooLong int
  | HeadlineGenerationFailed int
  | ServiceError py_str

section \<open>errors.py\<close>

subsection \<open>The shape of a raised GoogleAdsException\<close>

record FieldPathElement =
  field_name :: py_str

record ErrorLocation =
  field_path_elements :: "FieldPathElement list"

text \<open>
  \<open>error.details\<close>: \<open>to_dict\<close> is \<open>None\<close> when the object has no \<open>to_dict()\<close>
  (the call raises \<open>AttributeError\<close>), otherwise the items of the dictionary it
  returns, in order; the values are kept as the strings \<open>str(value)\<close> gives.
\<close>

record ErrorDetails =
  to_dict :: "(py_str \<times> py_str) list option"

record TriggerValue =
  string_value :: py_str

text \<open>One entry of \<open>ex.failure.errors\<close>.\<close>

record FailureError =
  fe_location :: "ErrorLocation attr"
  fe_details :: "ErrorDetails attr"
  fe_trigger :: "TriggerValue attr"

record PolicyViolationDetails =
  external_policy_name :: py_str

text \<open>\<open>ex.error\<close>; \<open>rpc_code_name\<close> is \<open>ex.error.code().name\<close>.\<close>

record RpcError =
  policy_violation_details :: "PolicyViolationDetails attr"
  rpc_message :: "py_str attr"
  rpc_details :: "py_str attr"
  rpc_code_name :: py_str

record GoogleAdsException =
  request_id :: py_str
  error :: RpcError
  failure_errors :: "FailureError list"

subsection \<open>The normalized error\<close>

record GoogleAdsErrorDetail =
  type_ :: py_str
  detail_value :: py_str

text \<open>
  \<open>error_message\<close> is \<open>None\<close> when the attribute the message is read from holds
  \<open>None\<close>; \<open>location\<close> is the list \<open>field_path_elements\<close> of the first failure.
\<close>

record GoogleAdsError =
  error_request_id :: py_str
  error_code :: py_str
  error_message :: "py_str option"
  error_fields :: "py_str list"
  class_name :: py_str
  entity_id :: "py_str option"
  class_id :: "py_str option"
  details :: "GoogleAdsErrorDetail list"
  trigger :: "py_str option"
  location :: "FieldPathElement list option"

subsection \<open>GoogleAdsErrorHandler\<close>

text \<open>\<open>getattr(obj, name, '''')\<close>: the default replaces an absent attribute only.\<close>

definition getattr_default :: "py_str attr \<Rightarrow> py_str option" where
  "getattr_default a = (case a of Absent \<Rightarrow> Some [] | PyNone \<Rightarrow> None | Val s \<Rightarrow> Some s)"

definition truthy :: "py_str option \<Rightarrow> bool" where
  "truthy v = (case v of None \<Rightarrow> False | Some s \<Rightarrow> s \<noteq> [])"

definition hasattr :: "'a attr \<Rightarrow> bool" where
  "hasattr a = (a \<noteq> Absent)"

definition extract_error_message :: "GoogleAdsException \<Rightarrow> py_exc + py_str option" where
  "extract_error_message ex =
     (if hasattr (policy_violation_details (error ex)) then
        (case policy_violation_details (error ex) of
           Val p \<Rightarrow> Inr (Some (external_policy_name p))
         | _ \<Rightarrow> Inl AttributeError)
      else if hasattr (rpc_message (error ex)) \<and> hasattr (rpc_details (error ex)) then
        Inr (case rpc_details (error ex) of Val s \<Rightarrow> Some s | _ \<Rightarrow> None)
      else
        Inr (if truthy (getattr_default (rpc_message (error ex)))
             then getattr_default (rpc_message (error ex))
             else getattr_default (rpc_details (error ex))))"

text \<open>
  The loop of \<open>_extract_error_fields\<close>, with the list built so far. \<open>error.location\<close>
  is read without a guard, so an absent attribute raises; a \<open>None\<close> location is falsy
  and skipped. (A location object that is falsy because it holds no elements adds
  nothing either way.)
\<close>

fun extract_error_fields_loop :: "FailureError list \<Rightarrow> py_str list \<Rightarrow> py_exc + py_str list" where
  "extract_error_fields_loop [] acc = Inr acc"
| "extract_error_fields_loop (e # es) acc =
     (case fe_location e of
        Absent \<Rightarrow> Inl AttributeError
      | PyNone \<Rightarrow> extract_error_fields_loop es acc
      | Val loc \<Rightarrow> extract_error_fields_loop es (acc @ map field_name (field_path_elements loc)))"

definition extract_error_fields :: "GoogleAdsException \<Rightarrow> py_exc + py_str list" where
  "extract_error_fields ex = extract_error_fields_loop (failure_errors ex) []"

text \<open>
  \<open>_extract_error_details\<close>: everything is inside \<open>try ... except (AttributeError,
  IndexError): pass\<close>, so the function always returns a list.
\<close>

definition extract_error_details :: "GoogleAdsException \<Rightarrow> GoogleAdsErrorDetail list" where
  "extract_error_details ex =
     (case failure_errors ex of
        [] \<Rightarrow> []
      | e # _ \<Rightarrow>
          (if hasattr (fe_details e) then
             (case fe_details e of
                Val d \<Rightarrow>
                  (case to_dict d of
                     None \<Rightarrow> []
                   | Some kvs \<Rightarrow> map (\<lambda>(k, v). \<lparr>type_ = k, detail_value = v\<rparr>) kvs)
              | _ \<Rightarrow> [])
           else []))"

definition extract_trigger :: "GoogleAdsException \<Rightarrow> py_str option" where
  "extract_trigger ex =
     (case failure_errors ex of
        [] \<Rightarrow> None
      | e # _ \<Rightarrow> (case fe_trigger e of Val t \<Rightarrow> Some (string_value t) | _ \<Rightarrow> None))"

definition extract_location :: "GoogleAdsException \<Rightarrow> FieldPathElement list option" where
  "extract_location ex =
     (case failure_errors ex of
        [] \<Rightarrow> None
      | e # _ \<Rightarrow> (case fe_location e of Val l \<Rightarrow> Some (field_path_elements l) | _ \<Rightarrow> None))"

definition create_error ::
  "GoogleAdsException \<Rightarrow> py_str \<Rightarrow> py_str option \<Rightarrow> py_str option \<Rightarrow> py_exc + GoogleAdsError" where
  "create_error ex cname ident cid =
     (case extract_error_message ex of
        Inl e \<Rightarrow> Inl e
      | Inr msg \<Rightarrow>
          (case extract_error_fields ex of
             Inl e \<Rightarrow> Inl e
           | Inr fs \<Rightarrow>
               Inr \<lparr>error_request_id = request_id ex,
                    error_code = rpc_code_name (error ex),
                    error_message = msg,
                    error_fields = fs,
                    class_name = cname,
                    entity_id = ident,
                    class_id = cid,
                    details = extract_error_details ex,
                    trigger = extract_trigger ex,
                    location = extract_location ex\<rparr>))"

section \<open>The remote SDK messages and the client\<close>

datatype KeywordMatchTypeEnum = EXACT | BROAD | PHRASE

datatype StatusEnum = ENABLED | PAUSED

text \<open>The \<open>create\<close> payload of an \<open>AdGroupCriterionOperation\<close>.\<close>

record AdGroupCriterion =
  crit_ad_group :: py_str
  crit_status :: StatusEnum
  crit_keyword_text :: py_str
  crit_negative :: bool
  crit_keyword_match_type :: KeywordMatchTypeEnum

datatype AdGroupCriterionOperation =
    CriterionCreate AdGroupCriterion
  | CriterionRemove py_str

text \<open>
  \<open>AdTextAsset\<close>: \<open>pinned_field\<close> is the integer value of the served-asset enum, whose
  zero value \<open>UNSPECIFIED\<close> is the default of a fresh message.
\<close>

record AdTextAsset =
  asset_text :: py_str
  pinned_field :: nat

record ResponsiveSearchAdInfo =
  rsa_headlines :: "AdTextAsset list"
  rsa_descriptions :: "AdTextAsset list"

text \<open>The \<open>Ad\<close> message, with the fields this code writes.\<close>

record AdMessage =
  resource_name :: py_str
  final_urls :: "py_str list"
  responsive_search_ad :: ResponsiveSearchAdInfo

record AdGroupAd =
  aga_status :: StatusEnum
  aga_ad_group :: py_str
  aga_ad :: AdMessage

record AdGroupAdOperation =
  aga_create :: AdGroupAd

record AdOperation =
  op_update :: AdMessage
  op_update_mask :: "py_str list"

text \<open>
  The client, as far as this code uses it: the path builders of the services and the
  remote mutate calls. A mutate call either raises a \<open>GoogleAdsException\<close> or returns
  a response, given here by the \<open>resource_name\<close> of each of \<open>response.results\<close>.
\<close>

record GoogleAdsClient =
  ad_group_path :: "py_str option \<Rightarrow> py_str option \<Rightarrow> py_str"
  ad_path :: "py_str \<Rightarrow> py_str \<Rightarrow> py_str"
  mutate_ad_group_criteria ::
    "py_str option \<Rightarrow> AdGroupCriterionOperation list \<Rightarrow> GoogleAdsException + py_str list"
  mutate_ads :: "py_str \<Rightarrow> AdOperation list \<Rightarrow> GoogleAdsException + py_str list"

section \<open>keywords.py\<close>

record Keyword =
  kw_id :: int
  kw_text :: py_str

record GoogleAdsKeywordIntegration =
  kw_client :: "GoogleAdsClient option"
  kw_googleads_account_id :: "py_str option"
  kw_googleads_ad_group_id :: "py_str option"
  kw_glitch_campaign_id :: "py_str option"
  kw_keywords :: "Keyword list"
  kw_match_type :: py_str
  kw_errors :: "GoogleAdsError list"

text \<open>
  What the batch methods return: \<open>None\<close>, the bare list \<open>[]\<close>, or a pair whose
  first component is \<open>None\<close>, the caught exception, or \<open>[]\<close>.
\<close>

datatype first_slot = SlotNone | SlotException GoogleAdsException | SlotEmptyList

datatype kw_result =
    ReturnedNone
  | ReturnedEmptyList
  | ReturnedPair first_slot "(int \<times> py_str) list"

text \<open>
  A run of a method gives what it returned, the instance afterwards, and the remote
  mutate calls it made (customer id and operations), in order.
\<close>

type_synonym criteria_call = "py_str option \<times> AdGroupCriterionOperation list"

text \<open>\<open>match_type_mapping.get(self.match_type, match_type_enum.BROAD)\<close>\<close>

definition match_type_mapping_get :: "py_str \<Rightarrow> KeywordMatchTypeEnum" where
  "match_type_mapping_get mt =
     (if mt = lit ''EXACT'' then EXACT
      else if mt = lit ''BROAD'' then BROAD
      else if mt = lit ''PHRASE'' then PHRASE
      else BROAD)"

definition create_base_criterion_operation ::
  "GoogleAdsKeywordIntegration \<Rightarrow> GoogleAdsClient \<Rightarrow> py_str \<Rightarrow> bool \<Rightarrow> AdGroupCriterionOperation" where
  "create_base_criterion_operation self c keyword_text is_negative =
     CriterionCreate
       \<lparr>crit_ad_group = ad_group_path c (kw_googleads_account_id self) (kw_googleads_ad_group_id self),
        crit_status = ENABLED,
        crit_keyword_text = keyword_text,
        crit_negative = is_negative,
        crit_keyword_match_type = match_type_mapping_get (kw_match_type self)\<rparr>"

definition process_mutation_response ::
  "GoogleAdsKeywordIntegration \<Rightarrow> py_str list \<Rightarrow> bool \<Rightarrow> kw_result" where
  "process_mutation_response self results is_negative =
     ReturnedPair SlotNone (zip (map kw_id (kw_keywords self)) results)"

definition batch_mutate_keywords ::
  "GoogleAdsKeywordIntegration \<Rightarrow> AdGroupCriterionOperation list \<Rightarrow> bool
     \<Rightarrow> kw_result \<times> GoogleAdsKeywordIntegration \<times> criteria_call list" where
  "batch_mutate_keywords self operations is_negative =
     (if kw_keywords self = [] \<or> kw_client self = None then (ReturnedPair SlotEmptyList [], self, [])
      else
        (case kw_client self of
           None \<Rightarrow> (ReturnedPair SlotEmptyList [], self, [])
         | Some c \<Rightarrow>
             (case mutate_ad_group_criteria c (kw_googleads_account_id self) operations of
                Inr results \<Rightarrow>
                  (process_mutation_response self results is_negative, self,
                   [(kw_googleads_account_id self, operations)])
              | Inl e \<Rightarrow>
                  (if \<not> is_negative then ReturnedPair (SlotException e) [] else ReturnedEmptyList,
                   self, [(kw_googleads_account_id self, operations)]))))"

definition validate_prerequisites :: "GoogleAdsKeywordIntegration \<Rightarrow> bool" where
  "validate_prerequisites self = (kw_keywords self \<noteq> [] \<and> kw_client self \<noteq> None)"

text \<open>
  The operations are built after the prerequisites hold, so the client is there; the
  \<open>None\<close> branch of the inner case is never reached.
\<close>

definition add_keywords_to_googleads ::
  "GoogleAdsKeywordIntegration \<Rightarrow> kw_result \<times> GoogleAdsKeywordIntegration \<times> criteria_call list" where
  "add_keywords_to_googleads self =
     (if \<not> validate_prerequisites self then (ReturnedNone, self, [])
      else
        (case kw_client self of
           None \<Rightarrow> (ReturnedNone, self, [])
         | Some c \<Rightarrow>
             batch_mutate_keywords self
               (map (\<lambda>k. create_base_criterion_operation self c (kw_text k) False) (kw_keywords self))
               False))"

definition add_negative_keywords_to_googleads ::
  "GoogleAdsKeywordIntegration \<Rightarrow> kw_result \<times> GoogleAdsKeywordIntegration \<times> criteria_call list" where
  "add_negative_keywords_to_googleads self =
     (if \<not> validate_prerequisites self then (ReturnedNone, self, [])
      else
        (case kw_client self of
           None \<Rightarrow> (ReturnedNone, self, [])
         | Some c \<Rightarrow>
             batch_mutate_keywords self
               (map (\<lambda>k. create_base_criterion_operation self c (kw_text k) True) (kw_keywords self))
               True))"

text \<open>
  \<open>add_error\<close>: the instance has no \<open>keyword_id\<close> attribute, so
  \<open>getattr(self, "keyword_id", None)\<close> is \<open>None\<close>. An exception of \<open>create_error\<close>
  leaves the list as it was.
\<close>

definition add_error ::
  "GoogleAdsKeywordIntegration \<Rightarrow> GoogleAdsException \<Rightarrow> py_exc + GoogleAdsKeywordIntegration" where
  "add_error self ex =
     (case create_error ex (lit ''Keyword'') (kw_glitch_campaign_id self) None of
        Inl e \<Rightarrow> Inl e
      | Inr err \<Rightarrow> Inr (self\<lparr>kw_errors := kw_errors self @ [err]\<rparr>))"

section \<open>ad.py\<close>

definition HEADLINE_MAX_LENGTH :: nat where "HEADLINE_MAX_LENGTH = 30"
definition MIN_HEADLINES :: nat where "MIN_HEADLINES = 3"
definition MIN_DESCRIPTIONS :: nat where "MIN_DESCRIPTIONS = 2"
definition MAX_HEADLINES :: nat where "MAX_HEADLINES = 15"
definition MAX_DESCRIPTIONS :: nat where "MAX_DESCRIPTIONS = 4"

text \<open>
  A headline or a description of the domain model is read through its \<open>text\<close> only.
  \<open>AdData\<close> stands for both \<open>AdData\<close> and \<open>Ad\<close>: an update reads the headlines and
  the descriptions, a create the url as well.
\<close>

record TextItem =
  item_text :: py_str

record AdData =
  ad_url :: py_str
  ad_headlines :: "TextItem list"
  ad_descriptions :: "TextItem list"

record AdUpdateConfig =
  cfg_headlines :: "TextItem list option"
  cfg_descriptions :: "TextItem list option"
  cfg_final_urls :: "py_str list option"

subsection \<open>GoogleAdsTextAssetCreator\<close>

text \<open>\<open>if pinned_field:\<close> is false for \<open>None\<close> and for the enum value zero.\<close>

definition create_text_asset :: "py_str \<Rightarrow> nat option \<Rightarrow> AdTextAsset" where
  "create_text_asset text pinned =
     (case pinned of
        None \<Rightarrow> \<lparr>asset_text = text, pinned_field = 0\<rparr>
      | Some p \<Rightarrow>
          if p \<noteq> 0 then \<lparr>asset_text = text, pinned_field = p\<rparr>
          else \<lparr>asset_text = text, pinned_field = 0\<rparr>)"

definition truncate_headlines :: "TextItem list \<Rightarrow> AdTextAsset list" where
  "truncate_headlines hs =
     map (\<lambda>headline. create_text_asset (take HEADLINE_MAX_LENGTH (item_text headline)) None) hs"

subsection \<open>AdValidator\<close>

definition validate_headlines_and_descriptions :: "'a list \<Rightarrow> 'b list \<Rightarrow> py_exc + unit" where
  "validate_headlines_and_descriptions hs ds =
     (if length hs < MIN_HEADLINES
        then Inl (ValueError (lit ''Number of Headlines must be 3 or greater''))
      else if length ds < MIN_DESCRIPTIONS
        then Inl (ValueError (lit ''Number of Descriptions must be 2 or greater''))
      else Inr ())"

subsection \<open>GoogleAdsAdIntegration\<close>

record GoogleAdsAdIntegration =
  ad_client :: GoogleAdsClient
  ad_googleads_account_id :: py_str
  ad_googleads_campaign_id :: "py_str option"
  ad_errors :: "GoogleAdsError list"

type_synonym ads_call = "py_str \<times> AdOperation list"

definition utm :: py_str where
  "utm = lit ''?utm_source=google&utm_medium=cpc&utm_campaign={{campaignid}}&utm_term={{keyword}}&utm_content={{creative}}''"

text \<open>
  \<open>_prepare_ad_group_ad\<close> fills a fresh \<open>AdGroupAdOperation\<close>: the repeated fields
  start empty and are appended to.
\<close>

definition prepare_ad_group_ad ::
  "GoogleAdsAdIntegration \<Rightarrow> py_str \<Rightarrow> AdData \<Rightarrow> AdGroupAdOperation" where
  "prepare_ad_group_ad self ad_group_id ad =
     (let url = ad_url ad @ utm in
      \<lparr>aga_create =
         \<lparr>aga_status = ENABLED,
          aga_ad_group =
            ad_group_path (ad_client self) (Some (ad_googleads_account_id self)) (Some ad_group_id),
          aga_ad =
            \<lparr>resource_name = [],
             final_urls = [] @ [url],
             responsive_search_ad =
               \<lparr>rsa_headlines =
                  (if ad_headlines ad \<noteq> []
                   then [] @ map (\<lambda>headline. create_text_asset (item_text headline) None)
                                 (take MAX_HEADLINES (ad_headlines ad))
                   else []),
                rsa_descriptions =
                  (if ad_descriptions ad \<noteq> []
                   then [] @ map (\<lambda>description. create_text_asset (item_text description) None)
                                 (take MAX_DESCRIPTIONS (ad_descriptions ad))
                   else [])\<rparr>\<rparr>\<rparr>\<rparr>)"

definition prepare_update_operation :: "GoogleAdsAdIntegration \<Rightarrow> py_str \<Rightarrow> AdOperation" where
  "prepare_update_operation self googleads_ad_id =
     \<lparr>op_update =
        \<lparr>resource_name = ad_path (ad_client self) (ad_googleads_account_id self) googleads_ad_id,
         final_urls = [],
         responsive_search_ad = \<lparr>rsa_headlines = [], rsa_descriptions = []\<rparr>\<rparr>,
      op_update_mask = []\<rparr>"

text \<open>Each setter clears the repeated field and extends it.\<close>

definition update_headlines :: "AdMessage \<Rightarrow> TextItem list \<Rightarrow> AdMessage" where
  "update_headlines googleads_ad hs =
     googleads_ad\<lparr>responsive_search_ad :=
       (responsive_search_ad googleads_ad)\<lparr>rsa_headlines := [] @ truncate_headlines hs\<rparr>\<rparr>"

definition update_descriptions :: "AdMessage \<Rightarrow> TextItem list \<Rightarrow> AdMessage" where
  "update_descriptions googleads_ad ds =
     googleads_ad\<lparr>responsive_search_ad :=
       (responsive_search_ad googleads_ad)
         \<lparr>rsa_descriptions := [] @ map (\<lambda>desc. create_text_asset (item_text desc) None) ds\<rparr>\<rparr>"

definition update_final_urls :: "AdMessage \<Rightarrow> py_str list \<Rightarrow> AdMessage" where
  "update_final_urls googleads_ad urls = googleads_ad\<lparr>final_urls := [] @ urls\<rparr>"

text \<open>
  Modelled from the spec: \<open>protobuf_helpers.field_mask\<close> (the UpdateMaskDiffer), a
  helper of the protobuf support library that is not among the sources. The spec gives
  it as: for a sparse update template, with the fields that are not to change at their
  zero value, the list of the field paths that differ from the all-zero baseline. The
  paths carry the names the spec uses for them, in the order of the message's fields.
\<close>

definition field_mask :: "AdMessage \<Rightarrow> py_str list" where
  "field_mask m =
     (if resource_name m \<noteq> [] then [lit ''resource_name''] else []) @
     (if final_urls m \<noteq> [] then [lit ''final_urls''] else []) @
     (if rsa_headlines (responsive_search_ad m) \<noteq> [] then [lit ''headlines''] else []) @
     (if rsa_descriptions (responsive_search_ad m) \<noteq> [] then [lit ''descriptions''] else [])"

text \<open>
  \<open>_execute_update_operation\<close> sets the mask, makes the remote call and, when that
  raises, appends the normalized error. It gives the instance afterwards (or the
  exception \<open>create_error\<close> raised) and the remote calls made.
\<close>

definition execute_update_operation ::
  "GoogleAdsAdIntegration \<Rightarrow> AdOperation \<Rightarrow> py_str
     \<Rightarrow> (py_exc + GoogleAdsAdIntegration) \<times> ads_call list" where
  "execute_update_operation self operation googleads_ad_id =
     (let operation' = operation\<lparr>op_update_mask := field_mask (op_update operation)\<rparr>;
          calls = [(ad_googleads_account_id self, [operation'])]
      in case mutate_ads (ad_client self) (ad_googleads_account_id self) [operation'] of
           Inr _ \<Rightarrow> (Inr self, calls)
         | Inl ex \<Rightarrow>
             (case create_error ex (lit ''Ad'') (ad_googleads_campaign_id self) (Some googleads_ad_id) of
                Inl e \<Rightarrow> (Inl e, calls)
              | Inr err \<Rightarrow> (Inr (self\<lparr>ad_errors := ad_errors self @ [err]\<rparr>), calls)))"

text \<open>\<open>_update_responsive_search_ad\<close>, the internal method.\<close>

definition update_responsive_search_ad_internal ::
  "GoogleAdsAdIntegration \<Rightarrow> py_str \<Rightarrow> AdUpdateConfig
     \<Rightarrow> (py_exc + GoogleAdsAdIntegration) \<times> ads_call list" where
  "update_responsive_search_ad_internal self googleads_ad_id config =
     (let operation = prepare_update_operation self googleads_ad_id;
          ad0 = op_update operation;
          ad1 = (case cfg_headlines config of None \<Rightarrow> ad0 | Some hs \<Rightarrow> update_headlines ad0 hs);
          ad2 = (case cfg_descriptions config of None \<Rightarrow> ad1 | Some ds \<Rightarrow> update_descriptions ad1 ds);
          ad3 = (case cfg_final_urls config of None \<Rightarrow> ad2 | Some urls \<Rightarrow> update_final_urls ad2 urls)
      in execute_update_operation self (operation\<lparr>op_update := ad3\<rparr>) googleads_ad_id)"

definition update_responsive_search_ad ::
  "GoogleAdsAdIntegration \<Rightarrow> py_str \<Rightarrow> AdData
     \<Rightarrow> (py_exc + GoogleAdsAdIntegration) \<times> ads_call list" where
  "update_responsive_search_ad self googleads_ad_id ad =
     (if googleads_ad_id = [] then (Inl (ValueError (lit ''googleads_ad_id is required'')), [])
      else
        (case validate_headlines_and_descriptions (ad_headlines ad) (ad_descriptions ad) of
           Inl e \<Rightarrow> (Inl e, [])
         | Inr _ \<Rightarrow>
             update_responsive_search_ad_internal self googleads_ad_id
               \<lparr>cfg_headlines = Some (take MAX_HEADLINES (ad_headlines ad)),
                cfg_descriptions = Some (take MAX_DESCRIPTIONS (ad_descriptions ad)),
                cfg_final_urls = None\<rparr>))"

definition update_ad_urls ::
  "GoogleAdsAdIntegration \<Rightarrow> py_str \<Rightarrow> py_str list
     \<Rightarrow> (py_exc + GoogleAdsAdIntegration) \<times> ads_call list" where
  "update_ad_urls self googleads_ad_id urls =
     update_responsive_search_ad_internal self googleads_ad_id
       \<lparr>cfg_headlines = None, cfg_descriptions = None, cfg_final_urls = Some urls\<rparr>"

section \<open>llm\_services.py\<close>

subsection \<open>The character classes of the regular expressions\<close>

text \<open>
  \<open>\w\<close> and \<open>\s\<close> of a \<open>str\<close> pattern are Unicode aware. Below 128 they are the
  ASCII letters, digits and underscore, and the ASCII whitespace (tab to carriage
  return, the four separators 28 to 31, and the space). From 128 on they follow the
  Unicode character database, which is a parameter here.
\<close>

record UnicodeDB =
  uni_alnum :: "nat \<Rightarrow> bool"
  uni_space :: "nat \<Rightarrow> bool"

definition ascii_alnum :: "nat \<Rightarrow> bool" where
  "ascii_alnum c = ((48 \<le> c \<and> c \<le> 57) \<or> (65 \<le> c \<and> c \<le> 90) \<or> (97 \<le> c \<and> c \<le> 122))"

definition is_word :: "UnicodeDB \<Rightarrow> nat \<Rightarrow> bool" where
  "is_word db c = (if c < 128 then ascii_alnum c \<or> c = 95 else uni_alnum db c)"

definition is_space :: "UnicodeDB \<Rightarrow> nat \<Rightarrow> bool" where
  "is_space db c =
     (if c < 128 then (9 \<le> c \<and> c \<le> 13) \<or> (28 \<le> c \<and> c \<le> 31) \<or> c = 32 else uni_space db c)"

text \<open>The class \<open>[a-zA-Z0-9 ]\<close>.\<close>

definition in_pattern_class :: "nat \<Rightarrow> bool" where
  "in_pattern_class c = (ascii_alnum c \<or> c = 32)"

text \<open>
  \<open>re.compile(r"^[a-zA-Z0-9 ]*$").match(v)\<close>: without the multiline flag \<open>$\<close> matches
  at the end of the string and also just before a newline that ends the string.
\<close>

definition pattern_match :: "py_str \<Rightarrow> bool" where
  "pattern_match v =
     (list_all in_pattern_class v \<or>
      (v \<noteq> [] \<and> last v = 10 \<and> list_all in_pattern_class (butlast v)))"

text \<open>\<open>re.sub(r"[^\w\s]", "", v)\<close> deletes every character outside both classes.\<close>

definition sub_non_word_space :: "UnicodeDB \<Rightarrow> py_str \<Rightarrow> py_str" where
  "sub_non_word_space db v = filter (\<lambda>c. is_word db c \<or> is_space db c) v"

text \<open>The bound \<open>length\<close> is 30 when the caller leaves it out.\<close>

definition llm_output_constraint_check :: "UnicodeDB \<Rightarrow> py_str \<Rightarrow> int \<Rightarrow> py_exc + py_str" where
  "llm_output_constraint_check db v len =
     (if int (length v) > len then Inl (TextTooLong len)
      else if \<not> pattern_match v then Inr (sub_non_word_space db v)
      else Inr v)"

subsection \<open>The constrained generation loop\<close>

record AdKeywordHeadline =
  akh_keyword :: py_str
  akh_headline :: py_str

text \<open>
  The generative service: the \<open>k\<close>-th call of one invocation, for a content, a keyword
  and the retry bound it is given, either raises or returns the \<open>headlines\<close> of the
  validated response object.
\<close>

type_synonym llm_service = "nat \<Rightarrow> py_str \<Rightarrow> py_str \<Rightarrow> int \<Rightarrow> py_exc + py_str list"

text \<open>The inner loop over \<open>result.headlines\<close>: the first headline that passes, if any.\<close>

fun scan_headlines :: "py_str list \<Rightarrow> py_str list \<Rightarrow> py_str option" where
  "scan_headlines [] existing_headlines = None"
| "scan_headlines (headline # rest) existing_headlines =
     (if length headline \<le> 29 \<and> headline \<notin> set existing_headlines then Some headline
      else scan_headlines rest existing_headlines)"

text \<open>
  The outer loop \<open>for _ in range(max_retries)\<close>, with the number \<open>k\<close> of calls made so
  far and the number of iterations left; \<open>None\<close> when the range is used up.
\<close>

fun generation_loop ::
  "llm_service \<Rightarrow> py_str \<Rightarrow> py_str \<Rightarrow> int \<Rightarrow> py_str list \<Rightarrow> nat \<Rightarrow> nat
     \<Rightarrow> (py_exc + AdKeywordHeadline) option" where
  "generation_loop svc content keyword max_retries existing_headlines k 0 = None"
| "generation_loop svc content keyword max_retries existing_headlines k (Suc n) =
     (case svc k content keyword max_retries of
        Inl e \<Rightarrow> Some (Inl e)
      | Inr headlines \<Rightarrow>
          (case scan_headlines headlines existing_headlines of
             Some headline \<Rightarrow> Some (Inr \<lparr>akh_keyword = keyword, akh_headline = headline\<rparr>)
           | None \<Rightarrow> generation_loop svc content keyword max_retries existing_headlines (Suc k) n))"

text \<open>
  The two last parameters are optional in the source: \<open>max_retries\<close> defaults to 5 and
  \<open>existing_headlines\<close> to the empty list.
\<close>

definition gen_ad_keyword_headline ::
  "llm_service \<Rightarrow> py_str \<Rightarrow> py_str \<Rightarrow> int option \<Rightarrow> py_str list option
     \<Rightarrow> py_exc + AdKeywordHeadline" where
  "gen_ad_keyword_headline svc content keyword max_retries_arg existing_arg =
     (let max_retries = (case max_retries_arg of None \<Rightarrow> 5 | Some m \<Rightarrow> m);
          existing_headlines = (case existing_arg of None \<Rightarrow> [] | Some hs \<Rightarrow> hs)
      in case generation_loop svc content keyword max_retries existing_headlines 0 (nat max_retries) of
           Some r \<Rightarrow> r
         | None \<Rightarrow> Inl (HeadlineGenerationFailed max_retries))"

section \<open>Concrete inputs\<close>

definition example_exception :: GoogleAdsException where
  "example_exception =
     \<lparr>request_id = lit ''req-1'',
      error = \<lparr>policy_violation_details = Absent, rpc_message = Absent,
               rpc_details = Val (lit ''keyword rejected''), rpc_code_name = lit ''INVALID_ARGUMENT''\<rparr>,
      failure_errors =
        [\<lparr>fe_location = PyNone, fe_details = Absent,
          fe_trigger = Val \<lparr>string_value = lit ''shoes''\<rparr>\<rparr>]\<rparr>"

definition example_keywords :: "Keyword list" where
  "example_keywords =
     [\<lparr>kw_id = 11, kw_text = lit ''shoes''\<rparr>,
      \<lparr>kw_id = 12, kw_text = lit ''boots''\<rparr>,
      \<lparr>kw_id = 13, kw_text = lit ''socks''\<rparr>]"

text \<open>A client whose criterion mutate answers every operation with one resource name.\<close>

definition accepting_client :: GoogleAdsClient where
  "accepting_client =
     \<lparr>ad_group_path = (\<lambda>account ad_group. lit ''customers/1/adGroups/2''),
      ad_path = (\<lambda>account ad. lit ''customers/'' @ account @ lit ''/ads/'' @ ad),
      mutate_ad_group_criteria =
        (\<lambda>account ops.
           Inr (map (\<lambda>op. case op of
                             CriterionCreate c \<Rightarrow> lit ''criteria/'' @ crit_keyword_text c
                           | CriterionRemove r \<Rightarrow> r) ops)),
      mutate_ads = (\<lambda>account ops. Inr (map (\<lambda>op. resource_name (op_update op)) ops))\<rparr>"

text \<open>A client whose mutate calls raise.\<close>

definition failing_client :: GoogleAdsClient where
  "failing_client =
     \<lparr>ad_group_path = (\<lambda>account ad_group. lit ''customers/1/adGroups/2''),
      ad_path = (\<lambda>account ad. lit ''customers/'' @ account @ lit ''/ads/'' @ ad),
      mutate_ad_group_criteria = (\<lambda>account ops. Inl example_exception),
      mutate_ads = (\<lambda>account ops. Inl example_exception)\<rparr>"

definition example_keyword_facade :: "GoogleAdsClient \<Rightarrow> GoogleAdsKeywordIntegration" where
  "example_keyword_facade c =
     \<lparr>kw_client = Some c,
      kw_googleads_account_id = Some (lit ''1''),
      kw_googleads_ad_group_id = Some (lit ''2''),
      kw_glitch_campaign_id = Some (lit ''7''),
      kw_keywords = example_keywords,
      kw_match_type = lit ''PHRASE'',
      kw_errors = []\<rparr>"

definition empty_keyword_facade :: GoogleAdsKeywordIntegration where
  "empty_keyword_facade = (example_keyword_facade accepting_client)\<lparr>kw_keywords := []\<rparr>"

definition example_error :: GoogleAdsError where
  "example_error =
     \<lparr>error_request_id = lit ''req-1'',
      error_code = lit ''INVALID_ARGUMENT'',
      error_message = Some (lit ''keyword rejected''),
      error_fields = [],
      class_name = lit ''Keyword'',
      entity_id = Some (lit ''7''),
      class_id = None,
      details = [],
      trigger = Some (lit ''shoes''),
      location = None\<rparr>"


definition example_ad_facade :: GoogleAdsAdIntegration where
  "example_ad_facade =
     \<lparr>ad_client = accepting_client,
      ad_googleads_account_id = lit ''1'',
      ad_googleads_campaign_id = Some (lit ''5''),
      ad_errors = []\<rparr>"

definition example_headlines :: "TextItem list" where
  "example_headlines =
     [\<lparr>item_text = lit ''Winter Boots For Every Trail And Season''\<rparr>,
      \<lparr>item_text = lit ''Trail Boots''\<rparr>,
      \<lparr>item_text = lit ''Boots On Sale''\<rparr>]"

definition example_ad :: AdData where
  "example_ad =
     \<lparr>ad_url = lit ''https://example.com/boots'',
      ad_headlines = example_headlines,
      ad_descriptions = [\<lparr>item_text = lit ''Warm boots''\<rparr>, \<lparr>item_text = lit ''Free returns''\<rparr>]\<rparr>"

definition headlines_only_config :: AdUpdateConfig where
  "headlines_only_config =
     \<lparr>cfg_headlines = Some example_headlines, cfg_descriptions = None, cfg_final_urls = None\<rparr>"

definition example_db :: UnicodeDB where
  "example_db = \<lparr>uni_alnum = (\<lambda>c. c = 233), uni_space = (\<lambda>c. c = 160)\<rparr>"

definition example_responses :: "nat \<Rightarrow> py_str list" where
  "example_responses k =
     (if k = 0 then [lit ''This Headline Is Far Too Long For Any Ad'']
      else [lit ''Short One'', lit ''Other One''])"

definition example_service :: llm_service where
  "example_service k content keyword max_retries = Inr (example_responses k)"

section \<open>Properties\<close>

lemmas example_defs =
  example_keyword_facade_def example_keywords_def accepting_client_def failing_client_def

subsection \<open>keywords.py: the batch and its results\<close>

text \<open>
  Claim C1. For an instance with a client and keywords, when the remote mutate call on
  the operations built for the keywords succeeds with one result per operation,
  \<open>add_keywords_to_googleads\<close> submits exactly that batch, whose \<open>i\<close>-th operation is
  the one built from the \<open>i\<close>-th keyword, and returns \<open>(None, pairs)\<close> with one pair
  per operation, the \<open>i\<close>-th being the \<open>id\<close> of the \<open>i\<close>-th keyword with the
  \<open>resource_name\<close> of the \<open>i\<close>-th result: same count, same order, nothing dropped,
  and the instance unchanged.
\<close>

theorem add_keywords_positional_correlation:
  assumes client: "kw_client self = Some c"
    and nonempty: "kw_keywords self \<noteq> []"
    and succeeded: "mutate_ad_group_criteria c (kw_googleads_account_id self)
        (map (\<lambda>k. create_base_criterion_operation self c (kw_text k) False) (kw_keywords self)) =
      Inr results"
    and one_each: "length results = length (kw_keywords self)"
  shows "add_keywords_to_googleads self =
           (ReturnedPair SlotNone (zip (map kw_id (kw_keywords self)) results), self,
            [(kw_googleads_account_id self,
              map (\<lambda>k. create_base_criterion_operation self c (kw_text k) False) (kw_keywords self))]) \<and>
         length (zip (map kw_id (kw_keywords self)) results) = length (kw_keywords self) \<and>
         length (map (\<lambda>k. create_base_criterion_operation self c (kw_text k) False) (kw_keywords self)) =
           length (kw_keywords self) \<and>
         (\<forall>i < length (kw_keywords self).
            map (\<lambda>k. create_base_criterion_operation self c (kw_text k) False) (kw_keywords self) ! i =
              create_base_criterion_operation self c (kw_text (kw_keywords self ! i)) False \<and>
            zip (map kw_id (kw_keywords self)) results ! i = (kw_id (kw_keywords self ! i), results ! i))"
proof -
  have run: "add_keywords_to_googleads self =
      (ReturnedPair SlotNone (zip (map kw_id (kw_keywords self)) results), self,
       [(kw_googleads_account_id self,
         map (\<lambda>k. create_base_criterion_operation self c (kw_text k) False) (kw_keywords self))])"
    using client nonempty succeeded
    by (simp add: add_keywords_to_googleads_def validate_prerequisites_def
        batch_mutate_keywords_def process_mutation_response_def)
  from run one_each show ?thesis
    by simp
qed

text \<open>
  Three keywords against a client that answers each operation: the three pairs, in
  the order of the keywords.
\<close>

theorem add_keywords_positional_correlation_witness:
  "add_keywords_to_googleads (example_keyword_facade accepting_client) =
     (ReturnedPair SlotNone
        [(11, lit ''criteria/shoes''), (12, lit ''criteria/boots''), (13, lit ''criteria/socks'')],
      example_keyword_facade accepting_client,
      [(Some (lit ''1''),
        map (\<lambda>k. create_base_criterion_operation (example_keyword_facade accepting_client)
                   accepting_client (kw_text k) False) example_keywords)])"
proof -
  let ?self = "example_keyword_facade accepting_client"
  let ?results = "[lit ''criteria/shoes'', lit ''criteria/boots'', lit ''criteria/socks'']"
  have h1: "kw_client ?self = Some accepting_client"
    by (simp add: example_keyword_facade_def)
  have h2: "kw_keywords ?self \<noteq> []"
    by (simp add: example_defs)
  have h3: "mutate_ad_group_criteria accepting_client (kw_googleads_account_id ?self)
      (map (\<lambda>k. create_base_criterion_operation ?self accepting_client (kw_text k) False)
         (kw_keywords ?self)) = Inr ?results"
    by (simp add: example_defs create_base_criterion_operation_def lit_def)
  have h4: "length ?results = length (kw_keywords ?self)"
    by (simp add: example_defs)
  from add_keywords_positional_correlation [OF h1 h2 h3 h4] show ?thesis
    by (simp add: example_defs)
qed

text \<open>
  Claim C5 as stated fails for \<open>_batch_mutate_keywords\<close>: its guard tests the keywords
  of the instance, not the operations it is passed, so with keywords present an empty
  operations list is sent to the remote, in one call.
\<close>

theorem empty_operations_counterexample:
  "batch_mutate_keywords (example_keyword_facade accepting_client) [] False =
     (ReturnedPair SlotNone [], example_keyword_facade accepting_client, [(Some (lit ''1''), [])])"
  by (simp add: batch_mutate_keywords_def process_mutation_response_def example_defs)

text \<open>
  Claim C5, amended. When the instance has no keywords, which is exactly when the
  operations list built for them is empty, executing the batch is a no-op:
  \<open>add_keywords_to_googleads\<close> and \<open>add_negative_keywords_to_googleads\<close> return
  \<open>None\<close>, \<open>_batch_mutate_keywords\<close> returns \<open>([], [])\<close> for whatever operations it is
  passed, the instance is unchanged and no remote call is made. With keywords and a
  client, \<open>_batch_mutate_keywords\<close> passed an empty operations list makes the remote
  call.
\<close>

theorem empty_batch_is_noop:
  "(kw_keywords self = [] \<longrightarrow>
      add_keywords_to_googleads self = (ReturnedNone, self, []) \<and>
      add_negative_keywords_to_googleads self = (ReturnedNone, self, []) \<and>
      batch_mutate_keywords self operations is_negative = (ReturnedPair SlotEmptyList [], self, [])) \<and>
   (map (\<lambda>k. create_base_criterion_operation self c (kw_text k) is_negative) (kw_keywords self) = [] \<longleftrightarrow>
      kw_keywords self = []) \<and>
   (kw_keywords self \<noteq> [] \<and> kw_client self = Some c \<longrightarrow>
      snd (snd (batch_mutate_keywords self [] is_negative)) = [(kw_googleads_account_id self, [])])"
  by (simp add: add_keywords_to_googleads_def add_negative_keywords_to_googleads_def
      validate_prerequisites_def batch_mutate_keywords_def split: sum.split)

text \<open>
  An instance with a client and no keywords, and the instance with three keywords
  passed an empty operations list.
\<close>

theorem empty_batch_is_noop_witness:
  "kw_keywords empty_keyword_facade = [] \<and>
   add_keywords_to_googleads empty_keyword_facade = (ReturnedNone, empty_keyword_facade, []) \<and>
   add_negative_keywords_to_googleads empty_keyword_facade = (ReturnedNone, empty_keyword_facade, []) \<and>
   batch_mutate_keywords empty_keyword_facade [] False =
     (ReturnedPair SlotEmptyList [], empty_keyword_facade, []) \<and>
   snd (snd (batch_mutate_keywords (example_keyword_facade accepting_client) [] False)) =
     [(Some (lit ''1''), [])]"
proof -
  have none: "kw_keywords empty_keyword_facade = []"
    by (simp add: empty_keyword_facade_def)
  have some: "kw_keywords (example_keyword_facade accepting_client) \<noteq> [] \<and>
      kw_client (example_keyword_facade accepting_client) = Some accepting_client"
    by (simp add: example_defs)
  from empty_batch_is_noop [of empty_keyword_facade "[]" False accepting_client] none
    empty_batch_is_noop [of "example_keyword_facade accepting_client" "[]" False accepting_client] some
  show ?thesis
    by (simp add: example_keyword_facade_def)
qed

text \<open>
  Claim C3 as stated fails: with three keywords and a remote call that raises, the
  error list of the instance after \<open>add_keywords_to_googleads\<close> is as long as before
  (not one longer), and what is returned is neither \<open>None\<close> nor \<open>[]\<close> but the pair of
  the caught exception and the empty list.
\<close>

theorem failed_batch_counterexample:
  "mutate_ad_group_criteria failing_client (Some (lit ''1''))
     (map (\<lambda>k. create_base_criterion_operation (example_keyword_facade failing_client)
                failing_client (kw_text k) False) example_keywords) = Inl example_exception \<and>
   length (kw_keywords (example_keyword_facade failing_client)) = 3 \<and>
   length (kw_errors (fst (snd (add_keywords_to_googleads (example_keyword_facade failing_client))))) =
     length (kw_errors (example_keyword_facade failing_client)) \<and>
   fst (add_keywords_to_googleads (example_keyword_facade failing_client)) \<noteq> ReturnedNone \<and>
   fst (add_keywords_to_googleads (example_keyword_facade failing_client)) \<noteq> ReturnedEmptyList \<and>
   fst (add_keywords_to_googleads (example_keyword_facade failing_client)) =
     ReturnedPair (SlotException example_exception) []"
  by (simp add: add_keywords_to_googleads_def validate_prerequisites_def batch_mutate_keywords_def
      example_defs)

text \<open>
  Claim C3, amended. When the remote mutate call of a keyword batch add raises a
  \<open>GoogleAdsException\<close>, the call does not propagate it and returns no partial result
  list: after exactly one remote call it returns the pair of the exception and \<open>[]\<close>
  (the bare \<open>[]\<close> for negative keywords) and leaves the instance, with its error list,
  unchanged. Recording the returned exception with \<open>add_error\<close> then appends exactly
  one normalized error, whenever \<open>create_error\<close> returns one.
\<close>

theorem failed_batch_returns_exception:
  assumes client: "kw_client self = Some c"
    and nonempty: "kw_keywords self \<noteq> []"
    and built: "operations =
      map (\<lambda>k. create_base_criterion_operation self c (kw_text k) is_negative) (kw_keywords self)"
    and raised: "mutate_ad_group_criteria c (kw_googleads_account_id self) operations = Inl ex"
  shows "(\<not> is_negative \<longrightarrow>
           add_keywords_to_googleads self =
             (ReturnedPair (SlotException ex) [], self, [(kw_googleads_account_id self, operations)])) \<and>
         (is_negative \<longrightarrow>
           add_negative_keywords_to_googleads self =
             (ReturnedEmptyList, self, [(kw_googleads_account_id self, operations)])) \<and>
         (\<forall>err. create_error ex (lit ''Keyword'') (kw_glitch_campaign_id self) None = Inr err \<longrightarrow>
            add_error self ex = Inr (self\<lparr>kw_errors := kw_errors self @ [err]\<rparr>) \<and>
            length (kw_errors (self\<lparr>kw_errors := kw_errors self @ [err]\<rparr>)) =
              length (kw_errors self) + 1)"
proof (cases is_negative)
  case True
  with assms show ?thesis
    by (simp add: add_negative_keywords_to_googleads_def validate_prerequisites_def
        batch_mutate_keywords_def add_error_def)
next
  case False
  with assms show ?thesis
    by (simp add: add_keywords_to_googleads_def validate_prerequisites_def
        batch_mutate_keywords_def add_error_def)
qed

lemma example_create_error:
  "create_error example_exception (lit ''Keyword'') (Some (lit ''7'')) None = Inr example_error"
  by (simp add: create_error_def extract_error_message_def extract_error_fields_def
      extract_error_details_def extract_trigger_def extract_location_def hasattr_def
      getattr_default_def truthy_def example_exception_def example_error_def)

text \<open>
  The three keywords against the client that raises, and the returned exception handed
  to \<open>add_error\<close>.
\<close>

theorem failed_batch_returns_exception_witness:
  "add_keywords_to_googleads (example_keyword_facade failing_client) =
     (ReturnedPair (SlotException example_exception) [], example_keyword_facade failing_client,
      [(Some (lit ''1''),
        map (\<lambda>k. create_base_criterion_operation (example_keyword_facade failing_client)
                   failing_client (kw_text k) False) example_keywords)]) \<and>
   add_negative_keywords_to_googleads (example_keyword_facade failing_client) =
     (ReturnedEmptyList, example_keyword_facade failing_client,
      [(Some (lit ''1''),
        map (\<lambda>k. create_base_criterion_operation (example_keyword_facade failing_client)
                   failing_client (kw_text k) True) example_keywords)]) \<and>
   add_error (example_keyword_facade failing_client) example_exception =
     Inr ((example_keyword_facade failing_client)\<lparr>kw_errors := [example_error]\<rparr>)"
proof -
  let ?self = "example_keyword_facade failing_client"
  have h1: "kw_client ?self = Some failing_client"
    by (simp add: example_keyword_facade_def)
  have h2: "kw_keywords ?self \<noteq> []"
    by (simp add: example_defs)
  have h4: "mutate_ad_group_criteria failing_client (kw_googleads_account_id ?self)
      (map (\<lambda>k. create_base_criterion_operation ?self failing_client (kw_text k) is_negative)
         (kw_keywords ?self)) = Inl example_exception" for is_negative
    by (simp add: failing_client_def)
  have h5: "create_error example_exception (lit ''Keyword'') (kw_glitch_campaign_id ?self) None =
      Inr example_error"
    using example_create_error by (simp add: example_keyword_facade_def)
  from failed_batch_returns_exception [OF h1 h2 refl h4, of False]
    failed_batch_returns_exception [OF h1 h2 refl h4, of True] h5
  show ?thesis
    by (simp add: example_keyword_facade_def)
qed

subsection \<open>errors.py: the normalized error\<close>

lemma extract_error_fields_loop_present:
  "\<forall>e \<in> set es. fe_location e \<noteq> Absent \<Longrightarrow>
   extract_error_fields_loop es acc =
     Inr (acc @ concat (map (\<lambda>e. case fe_location e of
                                    Val l \<Rightarrow> map field_name (field_path_elements l)
                                  | _ \<Rightarrow> []) es))"
  by (induction es arbitrary: acc) (auto split: attr.splits)

lemma extract_error_fields_loop_absent:
  "\<exists>e \<in> set es. fe_location e = Absent \<Longrightarrow> extract_error_fields_loop es acc = Inl AttributeError"
  by (induction es arbitrary: acc) (auto split: attr.splits)

lemma extract_error_message_returns:
  "policy_violation_details (error ex) \<noteq> PyNone \<Longrightarrow> \<exists>msg. extract_error_message ex = Inr msg"
  by (auto simp: extract_error_message_def hasattr_def split: attr.splits)

lemma extract_error_message_raises:
  "policy_violation_details (error ex) = PyNone \<Longrightarrow> extract_error_message ex = Inl AttributeError"
  by (simp add: extract_error_message_def hasattr_def)

text \<open>\<open>create_error\<close> raises in exactly two cases.\<close>

lemma create_error_raises_iff:
  "isl (create_error ex cname ident cid) \<longleftrightarrow>
     policy_violation_details (error ex) = PyNone \<or>
     (\<exists>e \<in> set (failure_errors ex). fe_location e = Absent)"
proof (cases "policy_violation_details (error ex) = PyNone")
  case True
  then show ?thesis
    by (simp add: create_error_def extract_error_message_raises)
next
  case False
  from extract_error_message_returns [OF False]
  obtain msg where msg: "extract_error_message ex = Inr msg" ..
  show ?thesis
  proof (cases "\<exists>e \<in> set (failure_errors ex). fe_location e = Absent")
    case True
    from extract_error_fields_loop_absent [OF True, of "[]"] True show ?thesis
      by (simp add: create_error_def msg extract_error_fields_def)
  next
    case absent: False
    then have "\<forall>e \<in> set (failure_errors ex). fe_location e \<noteq> Absent" by simp
    from extract_error_fields_loop_present [OF this, of "[]"] absent False show ?thesis
      by (simp add: create_error_def msg extract_error_fields_def)
  qed
qed


text \<open>
  Where every failure error has a \<open>location\<close> attribute (set, or \<open>None\<close>) and the
  message tier does not raise, \<open>create_error\<close> returns: the field paths are the field
  names of the locations that are set, in order, so they are empty when every location
  is \<open>None\<close>, and the details, trigger and location tiers give \<open>[]\<close>, \<open>None\<close> and
  \<open>None\<close> for an absent or \<open>None\<close> attribute.
\<close>

lemma create_error_defensive_extraction:
  assumes message_tier: "policy_violation_details (error ex) \<noteq> PyNone"
    and has_location: "\<forall>e \<in> set (failure_errors ex). fe_location e \<noteq> Absent"
  shows "\<exists>r. create_error ex cname ident cid = Inr r \<and>
           error_fields r =
             concat (map (\<lambda>e. case fe_location e of
                                 Val l \<Rightarrow> map field_name (field_path_elements l)
                               | _ \<Rightarrow> []) (failure_errors ex)) \<and>
           ((\<forall>e \<in> set (failure_errors ex). fe_location e = PyNone) \<longrightarrow> error_fields r = []) \<and>
           (failure_errors ex = [] \<longrightarrow> details r = [] \<and> trigger r = None \<and> location r = None) \<and>
           (\<forall>e es. failure_errors ex = e # es \<longrightarrow>
              (fe_details e = Absent \<or> fe_details e = PyNone \<longrightarrow> details r = []) \<and>
              (fe_trigger e = Absent \<or> fe_trigger e = PyNone \<longrightarrow> trigger r = None) \<and>
              (\<forall>t. fe_trigger e = Val t \<longrightarrow> trigger r = Some (string_value t)) \<and>
              (fe_location e = PyNone \<longrightarrow> location r = None) \<and>
              (\<forall>l. fe_location e = Val l \<longrightarrow> location r = Some (field_path_elements l)))"
proof -
  let ?paths = "concat (map (\<lambda>e. case fe_location e of
                                 Val l \<Rightarrow> map field_name (field_path_elements l)
                               | _ \<Rightarrow> []) (failure_errors ex))"
  from extract_error_message_returns [OF message_tier]
  obtain msg where msg: "extract_error_message ex = Inr msg" ..
  have fs: "extract_error_fields ex = Inr ?paths"
    using extract_error_fields_loop_present [OF has_location, of "[]"]
    by (simp add: extract_error_fields_def)
  let ?r = "\<lparr>error_request_id = request_id ex, error_code = rpc_code_name (error ex),
            error_message = msg, error_fields = ?paths, class_name = cname, entity_id = ident,
            class_id = cid, details = extract_error_details ex, trigger = extract_trigger ex,
            location = extract_location ex\<rparr>"
  have made: "create_error ex cname ident cid = Inr ?r"
    by (simp add: create_error_def msg fs)
  have none_paths: "(\<forall>e \<in> set (failure_errors ex). fe_location e = PyNone) \<longrightarrow> ?paths = []"
    by auto
  have first: "failure_errors ex = [] \<longrightarrow>
      extract_error_details ex = [] \<and> extract_trigger ex = None \<and> extract_location ex = None"
    by (simp add: extract_error_details_def extract_trigger_def extract_location_def)
  have rest: "\<forall>e es. failure_errors ex = e # es \<longrightarrow>
      (fe_details e = Absent \<or> fe_details e = PyNone \<longrightarrow> extract_error_details ex = []) \<and>
      (fe_trigger e = Absent \<or> fe_trigger e = PyNone \<longrightarrow> extract_trigger ex = None) \<and>
      (\<forall>t. fe_trigger e = Val t \<longrightarrow> extract_trigger ex = Some (string_value t)) \<and>
      (fe_location e = PyNone \<longrightarrow> extract_location ex = None) \<and>
      (\<forall>l. fe_location e = Val l \<longrightarrow> extract_location ex = Some (field_path_elements l))"
    by (auto simp: extract_error_details_def extract_trigger_def extract_location_def hasattr_def)
  show ?thesis
    using made none_paths first rest by simp
qed

text \<open>
  An exception whose only failure error has \<open>location = None\<close> and no \<open>details\<close>.
\<close>

lemma create_error_unset_location_example:
  "policy_violation_details (error example_exception) \<noteq> PyNone \<and>
   fe_location (hd (failure_errors example_exception)) = PyNone \<and>
   create_error example_exception (lit ''Keyword'') (Some (lit ''7'')) None = Inr example_error \<and>
   error_fields example_error = []"
proof -
  have h1: "policy_violation_details (error example_exception) \<noteq> PyNone"
    by (simp add: example_exception_def)
  have h2: "\<forall>e \<in> set (failure_errors example_exception). fe_location e \<noteq> Absent"
    by (simp add: example_exception_def)
  from create_error_defensive_extraction [OF h1 h2, of "lit ''Keyword''" "Some (lit ''7'')" None]
  obtain r where r: "create_error example_exception (lit ''Keyword'') (Some (lit ''7'')) None = Inr r"
    by blast
  have "r = example_error"
    using r example_create_error by simp
  with r h1 show ?thesis
    by (simp add: example_exception_def example_error_def)
qed

subsection \<open>ad.py: assets, counts, urls and the update mask\<close>

lemma truncate_headlines_texts:
  "map asset_text (truncate_headlines hs) = map (\<lambda>h. take 30 (item_text h)) hs"
  by (simp add: truncate_headlines_def create_text_asset_def HEADLINE_MAX_LENGTH_def comp_def)

text \<open>
  Claim C7. Every asset \<open>truncate_headlines\<close> returns has a text of at most 30
  characters; there is one asset per headline, whose text is the first 30 characters of
  the headline (a plain slice); when every headline is at most 30 long the texts are
  the headlines' unchanged; and truncating the result again changes nothing.
\<close>

theorem truncate_headlines_bounded:
  "(\<forall>a \<in> set (truncate_headlines hs). length (asset_text a) \<le> 30) \<and>
   length (truncate_headlines hs) = length hs \<and>
   map asset_text (truncate_headlines hs) = map (\<lambda>h. take 30 (item_text h)) hs \<and>
   ((\<forall>h \<in> set hs. length (item_text h) \<le> 30) \<longrightarrow>
      map asset_text (truncate_headlines hs) = map item_text hs) \<and>
   truncate_headlines (map (\<lambda>a. \<lparr>item_text = asset_text a\<rparr>) (truncate_headlines hs)) =
     truncate_headlines hs"
proof -
  have bound: "\<forall>a \<in> set (truncate_headlines hs). length (asset_text a) \<le> 30"
    by (auto simp: truncate_headlines_def create_text_asset_def HEADLINE_MAX_LENGTH_def)
  have len: "length (truncate_headlines hs) = length hs"
    by (simp add: truncate_headlines_def)
  have same: "(\<forall>h \<in> set hs. length (item_text h) \<le> 30) \<longrightarrow>
      map asset_text (truncate_headlines hs) = map item_text hs"
    by (simp add: truncate_headlines_texts)
  have again: "truncate_headlines (map (\<lambda>a. \<lparr>item_text = asset_text a\<rparr>) (truncate_headlines hs)) =
      truncate_headlines hs"
    by (simp add: truncate_headlines_def create_text_asset_def HEADLINE_MAX_LENGTH_def)
  from bound len same again truncate_headlines_texts [of hs] show ?thesis
    by blast
qed

text \<open>
  A headline of 39 characters is cut to its first 30; the two short ones are kept.
\<close>

theorem truncate_headlines_bounded_witness:
  "map asset_text (truncate_headlines example_headlines) =
     [lit ''Winter Boots For Every Trail A'', lit ''Trail Boots'', lit ''Boots On Sale''] \<and>
   map asset_text (truncate_headlines (tl example_headlines)) = map item_text (tl example_headlines)"
proof -
  have short: "\<forall>h \<in> set (tl example_headlines). length (item_text h) \<le> 30"
    by (simp add: example_headlines_def lit_def)
  from truncate_headlines_bounded [of example_headlines]
  have "map asset_text (truncate_headlines example_headlines) =
      map (\<lambda>h. take 30 (item_text h)) example_headlines"
    by blast
  moreover from truncate_headlines_bounded [of "tl example_headlines"] short
  have "map asset_text (truncate_headlines (tl example_headlines)) = map item_text (tl example_headlines)"
    by blast
  ultimately show ?thesis
    by (simp add: example_headlines_def lit_def)
qed

text \<open>
  Claim C8. \<open>validate_headlines_and_descriptions\<close> raises a \<open>ValueError\<close> exactly
  when there are fewer than 3 headlines or fewer than 2 descriptions, and returns
  normally otherwise; it raises for 2 headlines with 3 descriptions and returns for 3
  headlines with 2 descriptions.
\<close>

theorem validate_headlines_and_descriptions_counts:
  "((\<exists>m. validate_headlines_and_descriptions hs ds = Inl (ValueError m)) \<longleftrightarrow>
      (length hs < 3 \<or> length ds < 2)) \<and>
   (validate_headlines_and_descriptions hs ds = Inr () \<longleftrightarrow> \<not> (length hs < 3 \<or> length ds < 2)) \<and>
   validate_headlines_and_descriptions [h1, h2] [d1, d2, d3] =
     Inl (ValueError (lit ''Number of Headlines must be 3 or greater'')) \<and>
   validate_headlines_and_descriptions [h1, h2, h3] [d1, d2] = Inr ()"
  by (auto simp: validate_headlines_and_descriptions_def MIN_HEADLINES_def MIN_DESCRIPTIONS_def)

text \<open>Two headlines with three descriptions, three headlines with two.\<close>

theorem validate_headlines_and_descriptions_counts_witness:
  "validate_headlines_and_descriptions
     [lit ''Trail Boots'', lit ''Boots On Sale'']
     [lit ''Warm boots'', lit ''Free returns'', lit ''Since 1990''] =
     Inl (ValueError (lit ''Number of Headlines must be 3 or greater'')) \<and>
   validate_headlines_and_descriptions
     [lit ''Trail Boots'', lit ''Boots On Sale'', lit ''Winter Boots'']
     [lit ''Warm boots'', lit ''Free returns''] = Inr ()"
  using validate_headlines_and_descriptions_counts
    [where hs = "[lit ''Trail Boots'', lit ''Boots On Sale'']"
       and ds = "[lit ''Warm boots'', lit ''Free returns'']"
       and ?h1.0 = "lit ''Trail Boots''" and ?h2.0 = "lit ''Boots On Sale''"
       and ?h3.0 = "lit ''Winter Boots''" and ?d1.0 = "lit ''Warm boots''"
       and ?d2.0 = "lit ''Free returns''" and ?d3.0 = "lit ''Since 1990''"]
  by simp

text \<open>
  Claim C9. The operation \<open>_prepare_ad_group_ad\<close> builds for an ad create has exactly
  one final URL: the submitted \<open>ad.url\<close> followed by the fixed UTM suffix, in which the
  placeholders \<open>{{campaignid}}\<close>, \<open>{{keyword}}\<close> and \<open>{{creative}}\<close> stand as written.
\<close>

theorem prepare_ad_group_ad_final_url:
  "final_urls (aga_ad (aga_create (prepare_ad_group_ad self ad_group_id ad))) =
     [ad_url ad @
      lit ''?utm_source=google&utm_medium=cpc&utm_campaign={{campaignid}}&utm_term={{keyword}}&utm_content={{creative}}'']"
  by (simp add: prepare_ad_group_ad_def utm_def Let_def)

text \<open>The url of the example ad.\<close>

theorem prepare_ad_group_ad_final_url_witness:
  "final_urls (aga_ad (aga_create (prepare_ad_group_ad example_ad_facade (lit ''2'') example_ad))) =
     [lit ''https://example.com/boots?utm_source=google&utm_medium=cpc&utm_campaign={{campaignid}}&utm_term={{keyword}}&utm_content={{creative}}'']"
  using prepare_ad_group_ad_final_url [of example_ad_facade "lit ''2''" example_ad]
  by (simp add: example_ad_def lit_def)

lemma truncate_headlines_empty: "truncate_headlines hs = [] \<longleftrightarrow> hs = []"
  by (simp add: truncate_headlines_def)

lemma execute_update_operation_calls:
  "snd (execute_update_operation self operation googleads_ad_id) =
     [(ad_googleads_account_id self, [operation\<lparr>op_update_mask := field_mask (op_update operation)\<rparr>])]"
  by (simp add: execute_update_operation_def Let_def split: sum.split)

lemma path_names_distinct:
  "lit ''headlines'' \<noteq> lit ''resource_name''" "lit ''headlines'' \<noteq> lit ''final_urls''"
  "lit ''headlines'' \<noteq> lit ''descriptions''" "lit ''descriptions'' \<noteq> lit ''resource_name''"
  "lit ''descriptions'' \<noteq> lit ''final_urls''" "lit ''final_urls'' \<noteq> lit ''resource_name''"
  by (simp_all add: lit_def)

text \<open>
  Claim C6, amended. Every ad update makes one remote call with one operation, whose
  mask holds the path of a sub-field of the update config (\<open>final_urls\<close>,
  \<open>headlines\<close>, \<open>descriptions\<close>) exactly when that sub-field is set to a non-empty
  list, and besides them only \<open>resource_name\<close>, which every update template carries; a
  sub-field omitted from the config never has its path in the mask. For a template
  with only headlines populated the diff is exactly \<open>["headlines"]\<close>.
\<close>

theorem update_mask_of_update_config:
  "(\<exists>operation.
      snd (update_responsive_search_ad_internal self googleads_ad_id config) =
        [(ad_googleads_account_id self, [operation])] \<and>
      op_update_mask operation =
        (if ad_path (ad_client self) (ad_googleads_account_id self) googleads_ad_id \<noteq> []
         then [lit ''resource_name''] else []) @
        (if cfg_final_urls config \<noteq> None \<and> cfg_final_urls config \<noteq> Some []
         then [lit ''final_urls''] else []) @
        (if cfg_headlines config \<noteq> None \<and> cfg_headlines config \<noteq> Some []
         then [lit ''headlines''] else []) @
        (if cfg_descriptions config \<noteq> None \<and> cfg_descriptions config \<noteq> Some []
         then [lit ''descriptions''] else []) \<and>
      (cfg_final_urls config = None \<longrightarrow> lit ''final_urls'' \<notin> set (op_update_mask operation)) \<and>
      (cfg_headlines config = None \<longrightarrow> lit ''headlines'' \<notin> set (op_update_mask operation)) \<and>
      (cfg_descriptions config = None \<longrightarrow> lit ''descriptions'' \<notin> set (op_update_mask operation))) \<and>
   (hs \<noteq> [] \<longrightarrow>
      field_mask \<lparr>resource_name = [], final_urls = [],
                  responsive_search_ad = \<lparr>rsa_headlines = hs, rsa_descriptions = []\<rparr>\<rparr> =
        [lit ''headlines''])"
proof -
  define operation0 where "operation0 = prepare_update_operation self googleads_ad_id"
  define ad1 where "ad1 =
    (case cfg_headlines config of None \<Rightarrow> op_update operation0
     | Some hs \<Rightarrow> update_headlines (op_update operation0) hs)"
  define ad2 where "ad2 =
    (case cfg_descriptions config of None \<Rightarrow> ad1 | Some ds \<Rightarrow> update_descriptions ad1 ds)"
  define ad3 where "ad3 =
    (case cfg_final_urls config of None \<Rightarrow> ad2 | Some urls \<Rightarrow> update_final_urls ad2 urls)"
  define sent where "sent = (operation0\<lparr>op_update := ad3\<rparr>)\<lparr>op_update_mask := field_mask ad3\<rparr>"
  define expected where "expected =
        (if ad_path (ad_client self) (ad_googleads_account_id self) googleads_ad_id \<noteq> []
         then [lit ''resource_name''] else []) @
        (if cfg_final_urls config \<noteq> None \<and> cfg_final_urls config \<noteq> Some []
         then [lit ''final_urls''] else []) @
        (if cfg_headlines config \<noteq> None \<and> cfg_headlines config \<noteq> Some []
         then [lit ''headlines''] else []) @
        (if cfg_descriptions config \<noteq> None \<and> cfg_descriptions config \<noteq> Some []
         then [lit ''descriptions''] else [])"
  have calls: "snd (update_responsive_search_ad_internal self googleads_ad_id config) =
      [(ad_googleads_account_id self, [sent])]"
    unfolding update_responsive_search_ad_internal_def Let_def execute_update_operation_calls
      sent_def ad3_def ad2_def ad1_def operation0_def
    by simp
  have rn: "resource_name ad3 = ad_path (ad_client self) (ad_googleads_account_id self) googleads_ad_id"
    by (simp add: ad3_def ad2_def ad1_def operation0_def prepare_update_operation_def
        update_headlines_def update_descriptions_def update_final_urls_def split: option.split)
  have fu: "final_urls ad3 = (case cfg_final_urls config of None \<Rightarrow> [] | Some urls \<Rightarrow> urls)"
    by (simp add: ad3_def ad2_def ad1_def operation0_def prepare_update_operation_def
        update_headlines_def update_descriptions_def update_final_urls_def split: option.split)
  have hl: "rsa_headlines (responsive_search_ad ad3) =
      (case cfg_headlines config of None \<Rightarrow> [] | Some hs \<Rightarrow> truncate_headlines hs)"
    by (simp add: ad3_def ad2_def ad1_def operation0_def prepare_update_operation_def
        update_headlines_def update_descriptions_def update_final_urls_def split: option.split)
  have ds: "rsa_descriptions (responsive_search_ad ad3) =
      (case cfg_descriptions config of None \<Rightarrow> []
       | Some ds \<Rightarrow> map (\<lambda>desc. create_text_asset (item_text desc) None) ds)"
    by (simp add: ad3_def ad2_def ad1_def operation0_def prepare_update_operation_def
        update_headlines_def update_descriptions_def update_final_urls_def split: option.split)
  have "field_mask ad3 = expected"
    unfolding field_mask_def expected_def
    by (simp add: rn fu hl ds truncate_headlines_empty split: option.split)
  then have mask: "op_update_mask sent = expected"
    by (simp add: sent_def)
  have omitted:
    "cfg_final_urls config = None \<longrightarrow> lit ''final_urls'' \<notin> set (op_update_mask sent)"
    "cfg_headlines config = None \<longrightarrow> lit ''headlines'' \<notin> set (op_update_mask sent)"
    "cfg_descriptions config = None \<longrightarrow> lit ''descriptions'' \<notin> set (op_update_mask sent)"
    unfolding mask expected_def using path_names_distinct by (auto split: if_splits)
  have only_headlines: "hs \<noteq> [] \<longrightarrow>
      field_mask \<lparr>resource_name = [], final_urls = [],
                  responsive_search_ad = \<lparr>rsa_headlines = hs, rsa_descriptions = []\<rparr>\<rparr> =
        [lit ''headlines'']"
    by (simp add: field_mask_def)
  have "snd (update_responsive_search_ad_internal self googleads_ad_id config) =
        [(ad_googleads_account_id self, [sent])] \<and>
      op_update_mask sent = expected \<and>
      (cfg_final_urls config = None \<longrightarrow> lit ''final_urls'' \<notin> set (op_update_mask sent)) \<and>
      (cfg_headlines config = None \<longrightarrow> lit ''headlines'' \<notin> set (op_update_mask sent)) \<and>
      (cfg_descriptions config = None \<longrightarrow> lit ''descriptions'' \<notin> set (op_update_mask sent))"
    using calls mask omitted by (intro conjI)
  then have "\<exists>operation.
      snd (update_responsive_search_ad_internal self googleads_ad_id config) =
        [(ad_googleads_account_id self, [operation])] \<and>
      op_update_mask operation = expected \<and>
      (cfg_final_urls config = None \<longrightarrow> lit ''final_urls'' \<notin> set (op_update_mask operation)) \<and>
      (cfg_headlines config = None \<longrightarrow> lit ''headlines'' \<notin> set (op_update_mask operation)) \<and>
      (cfg_descriptions config = None \<longrightarrow> lit ''descriptions'' \<notin> set (op_update_mask operation))"
    by (rule exI)
  with only_headlines show ?thesis
    unfolding expected_def by (intro conjI)
qed

text \<open>
  Claim C6 as stated fails: an update whose config sets only \<open>final_urls\<close> has the
  mask \<open>["resource_name", "final_urls"]\<close>, with a path that is no sub-field of the
  config; and when the config sets \<open>final_urls\<close> to the empty list, the mask lacks
  \<open>final_urls\<close> although the config sets it.
\<close>

theorem update_mask_counterexample:
  "snd (update_ad_urls example_ad_facade (lit ''9'') [lit ''https://example.com'']) =
     [(lit ''1'',
       [\<lparr>op_update =
           \<lparr>resource_name = lit ''customers/1/ads/9'',
            final_urls = [lit ''https://example.com''],
            responsive_search_ad = \<lparr>rsa_headlines = [], rsa_descriptions = []\<rparr>\<rparr>,
         op_update_mask = [lit ''resource_name'', lit ''final_urls'']\<rparr>])] \<and>
   snd (update_ad_urls example_ad_facade (lit ''9'') []) =
     [(lit ''1'',
       [\<lparr>op_update =
           \<lparr>resource_name = lit ''customers/1/ads/9'',
            final_urls = [],
            responsive_search_ad = \<lparr>rsa_headlines = [], rsa_descriptions = []\<rparr>\<rparr>,
         op_update_mask = [lit ''resource_name'']\<rparr>])]"
  by (simp add: update_ad_urls_def update_responsive_search_ad_internal_def Let_def
      execute_update_operation_calls prepare_update_operation_def update_final_urls_def
      field_mask_def example_ad_facade_def accepting_client_def lit_def)

text \<open>
  An update with only the headlines set.
\<close>

theorem update_mask_of_update_config_witness:
  "map op_update_mask
     (concat (map snd (snd (update_responsive_search_ad_internal example_ad_facade (lit ''9'')
        headlines_only_config)))) =
     [[lit ''resource_name'', lit ''headlines'']] \<and>
   field_mask \<lparr>resource_name = [], final_urls = [],
               responsive_search_ad =
                 \<lparr>rsa_headlines = truncate_headlines example_headlines, rsa_descriptions = []\<rparr>\<rparr> =
     [lit ''headlines'']"
proof -
  have nonempty: "truncate_headlines example_headlines \<noteq> []"
    by (simp add: truncate_headlines_def example_headlines_def)
  from update_mask_of_update_config [of example_ad_facade "lit ''9''" headlines_only_config
      "truncate_headlines example_headlines"]
  obtain operation where
    sent: "snd (update_responsive_search_ad_internal example_ad_facade (lit ''9'') headlines_only_config) =
      [(ad_googleads_account_id example_ad_facade, [operation])]"
    and mask: "op_update_mask operation =
        (if ad_path (ad_client example_ad_facade) (ad_googleads_account_id example_ad_facade) (lit ''9'') \<noteq> []
         then [lit ''resource_name''] else []) @
        (if cfg_final_urls headlines_only_config \<noteq> None \<and> cfg_final_urls headlines_only_config \<noteq> Some []
         then [lit ''final_urls''] else []) @
        (if cfg_headlines headlines_only_config \<noteq> None \<and> cfg_headlines headlines_only_config \<noteq> Some []
         then [lit ''headlines''] else []) @
        (if cfg_descriptions headlines_only_config \<noteq> None \<and> cfg_descriptions headlines_only_config \<noteq> Some []
         then [lit ''descriptions''] else [])"
    and only: "truncate_headlines example_headlines \<noteq> [] \<longrightarrow>
      field_mask \<lparr>resource_name = [], final_urls = [],
                  responsive_search_ad =
                    \<lparr>rsa_headlines = truncate_headlines example_headlines, rsa_descriptions = []\<rparr>\<rparr> =
        [lit ''headlines'']"
    by blast
  have "op_update_mask operation = [lit ''resource_name'', lit ''headlines'']"
    unfolding mask
    by (simp add: headlines_only_config_def example_ad_facade_def accepting_client_def
        example_headlines_def lit_def)
  with sent only nonempty show ?thesis
    by simp
qed

subsection \<open>llm\_services.py: the output check and the generation loop\<close>

lemma in_pattern_class_kept: "in_pattern_class c \<Longrightarrow> is_word db c \<or> is_space db c"
  by (auto simp: in_pattern_class_def ascii_alnum_def is_word_def is_space_def)

lemma newline_is_space: "is_space db 10"
  by (simp add: is_space_def)

lemma sub_non_word_space_id:
  "\<forall>c \<in> set v. is_word db c \<or> is_space db c \<Longrightarrow> sub_non_word_space db v = v"
  by (simp add: sub_non_word_space_def)

lemma pattern_match_unchanged:
  assumes "pattern_match v"
  shows "sub_non_word_space db v = v"
proof (rule sub_non_word_space_id, rule ballI)
  fix c assume c: "c \<in> set v"
  from assms consider (all) "list_all in_pattern_class v"
    | (nl) "v \<noteq> []" "last v = 10" "list_all in_pattern_class (butlast v)"
    by (auto simp: pattern_match_def)
  then show "is_word db c \<or> is_space db c"
  proof cases
    case all
    with c have "in_pattern_class c" by (simp add: list_all_iff)
    then show ?thesis by (rule in_pattern_class_kept)
  next
    case nl
    from nl(1) have "v = butlast v @ [last v]" by simp
    with c have "c \<in> set (butlast v) \<or> c = last v"
      by (metis Un_iff empty_iff empty_set insert_iff list.simps(15) set_append)
    then show ?thesis
    proof
      assume "c \<in> set (butlast v)"
      with nl(3) have "in_pattern_class c" by (simp add: list_all_iff)
      then show ?thesis by (rule in_pattern_class_kept)
    next
      assume "c = last v"
      with nl(2) show ?thesis by (simp add: newline_is_space)
    qed
  qed
qed

text \<open>
  Claim C10. \<open>llm_output_constraint_check(v, length)\<close> raises exactly when
  \<open>len(v) > length\<close>; otherwise it returns \<open>v\<close> itself when \<open>v\<close> has only ASCII letters,
  digits and spaces, and else \<open>v\<close> without the characters that are neither word
  characters nor whitespace. What it returns is never longer than the bound.
\<close>

theorem llm_output_constraint_check_spec:
  "llm_output_constraint_check db v len =
     (if int (length v) > len then Inl (TextTooLong len)
      else if list_all in_pattern_class v then Inr v
      else Inr (filter (\<lambda>c. is_word db c \<or> is_space db c) v)) \<and>
   (isl (llm_output_constraint_check db v len) \<longleftrightarrow> int (length v) > len) \<and>
   (\<forall>r. llm_output_constraint_check db v len = Inr r \<longrightarrow> int (length r) \<le> len)"
proof -
  have eq: "llm_output_constraint_check db v len =
     (if int (length v) > len then Inl (TextTooLong len)
      else if list_all in_pattern_class v then Inr v
      else Inr (filter (\<lambda>c. is_word db c \<or> is_space db c) v))"
  proof (cases "pattern_match v")
    case True
    then have "sub_non_word_space db v = v" by (rule pattern_match_unchanged)
    with True show ?thesis
      by (simp add: llm_output_constraint_check_def sub_non_word_space_def)
  next
    case False
    then have "\<not> list_all in_pattern_class v" by (simp add: pattern_match_def)
    with False show ?thesis
      by (simp add: llm_output_constraint_check_def sub_non_word_space_def)
  qed
  have raises: "isl (llm_output_constraint_check db v len) \<longleftrightarrow> int (length v) > len"
    by (simp add: llm_output_constraint_check_def)
  have shorter: "int (length (filter (\<lambda>c. is_word db c \<or> is_space db c) v)) \<le> int (length v)"
    by simp
  have bound: "\<forall>r. llm_output_constraint_check db v len = Inr r \<longrightarrow> int (length r) \<le> len"
  proof (intro allI impI)
    fix r assume "llm_output_constraint_check db v len = Inr r"
    with eq have fits: "\<not> int (length v) > len"
      and r: "r = v \<or> r = filter (\<lambda>c. is_word db c \<or> is_space db c) v"
      by (auto split: if_splits)
    from r shorter have "int (length r) \<le> int (length v)" by auto
    with fits show "int (length r) \<le> len" by linarith
  qed
  from eq raises bound show ?thesis by (intro conjI)
qed

text \<open>
  Punctuation is removed, a clean text is returned as it is, a text over the bound
  raises.
\<close>

theorem llm_output_constraint_check_spec_witness:
  "llm_output_constraint_check example_db (lit ''Save 20% today!'') 25 = Inr (lit ''Save 20 today'') \<and>
   llm_output_constraint_check example_db (lit ''Save 20 today'') 25 = Inr (lit ''Save 20 today'') \<and>
   llm_output_constraint_check example_db (lit ''Save 20 today'') 12 = Inl (TextTooLong 12)"
  using llm_output_constraint_check_spec [of example_db "lit ''Save 20% today!''" 25]
    llm_output_constraint_check_spec [of example_db "lit ''Save 20 today''" 25]
    llm_output_constraint_check_spec [of example_db "lit ''Save 20 today''" 12]
  by (simp add: lit_def in_pattern_class_def ascii_alnum_def is_word_def is_space_def example_db_def)

lemma scan_headlines_find:
  "scan_headlines hs existing = find (\<lambda>h. length h \<le> 29 \<and> h \<notin> set existing) hs"
  by (induction hs) simp_all

lemma find_append_case:
  "find P (xs @ ys) = (case find P xs of Some x \<Rightarrow> Some x | None \<Rightarrow> find P ys)"
  by (induction xs) simp_all

lemma generation_loop_responses:
  "\<forall>j < n. svc (k + j) content keyword m = Inr (responses (k + j)) \<Longrightarrow>
   generation_loop svc content keyword m existing k n =
     (case find (\<lambda>h. length h \<le> 29 \<and> h \<notin> set existing) (concat (map responses [k..<k + n])) of
        Some h \<Rightarrow> Some (Inr \<lparr>akh_keyword = keyword, akh_headline = h\<rparr>)
      | None \<Rightarrow> None)"
proof (induction n arbitrary: k)
  case 0
  then show ?case by simp
next
  case (Suc n)
  from Suc.prems have first: "svc k content keyword m = Inr (responses k)"
    by (metis add.right_neutral zero_less_Suc)
  have later: "\<forall>j < n. svc (Suc k + j) content keyword m = Inr (responses (Suc k + j))"
    using Suc.prems by (metis Suc_less_eq add_Suc_shift)
  have range: "[k..<k + Suc n] = k # [Suc k..<Suc k + n]"
    by (simp add: upt_conv_Cons)
  show ?case
    unfolding range
    by (simp add: first scan_headlines_find find_append_case Suc.IH [OF later] split: option.split)
qed

lemma scan_headlines_sound:
  "scan_headlines hs existing = Some h \<Longrightarrow> length h \<le> 29 \<and> h \<notin> set existing \<and> h \<in> set hs"
  by (induction hs) (auto split: if_splits)

lemma generation_loop_sound:
  "generation_loop svc content keyword m existing k n = Some (Inr r) \<Longrightarrow>
   akh_keyword r = keyword \<and> length (akh_headline r) \<le> 29 \<and> akh_headline r \<notin> set existing"
proof (induction n arbitrary: k)
  case 0
  then show ?case by simp
next
  case (Suc n)
  then show ?case
    by (auto split: sum.splits option.splits dest: scan_headlines_sound)
qed

text \<open>
  Claim C4. With a service that answers each of the at most \<open>max_retries\<close> requests,
  \<open>gen_ad_keyword_headline\<close> returns the first candidate, in the order of the requests
  and of the headlines within each response, that is at most 29 characters long and not
  among the existing headlines, and raises the generation failure when no candidate of
  these requests is; whatever the service does, a returned headline passes that test
  and carries the keyword. Left out, the retry bound is 5 and the existing headlines
  are none.
\<close>

theorem gen_ad_keyword_headline_spec:
  "((\<forall>j < nat m. svc j content keyword m = Inr (responses j)) \<longrightarrow>
      gen_ad_keyword_headline svc content keyword (Some m) (Some existing) =
        (case find (\<lambda>h. length h \<le> 29 \<and> h \<notin> set existing)
                   (concat (map responses [0..<nat m])) of
           Some h \<Rightarrow> Inr \<lparr>akh_keyword = keyword, akh_headline = h\<rparr>
         | None \<Rightarrow> Inl (HeadlineGenerationFailed m))) \<and>
   (\<forall>r. gen_ad_keyword_headline svc content keyword (Some m) (Some existing) = Inr r \<longrightarrow>
      akh_keyword r = keyword \<and> length (akh_headline r) \<le> 29 \<and> akh_headline r \<notin> set existing) \<and>
   gen_ad_keyword_headline svc content keyword None existing_arg =
     gen_ad_keyword_headline svc content keyword (Some 5) existing_arg \<and>
   gen_ad_keyword_headline svc content keyword max_retries_arg None =
     gen_ad_keyword_headline svc content keyword max_retries_arg (Some [])"
proof -
  have run: "(\<forall>j < nat m. svc j content keyword m = Inr (responses j)) \<longrightarrow>
      gen_ad_keyword_headline svc content keyword (Some m) (Some existing) =
        (case find (\<lambda>h. length h \<le> 29 \<and> h \<notin> set existing)
                   (concat (map responses [0..<nat m])) of
           Some h \<Rightarrow> Inr \<lparr>akh_keyword = keyword, akh_headline = h\<rparr>
         | None \<Rightarrow> Inl (HeadlineGenerationFailed m))"
  proof
    assume "\<forall>j < nat m. svc j content keyword m = Inr (responses j)"
    then have "\<forall>j < nat m. svc (0 + j) content keyword m = Inr (responses (0 + j))"
      by simp
    from generation_loop_responses
      [of "nat m" svc 0 content keyword m responses existing, OF this] show
      "gen_ad_keyword_headline svc content keyword (Some m) (Some existing) =
        (case find (\<lambda>h. length h \<le> 29 \<and> h \<notin> set existing)
                   (concat (map responses [0..<nat m])) of
           Some h \<Rightarrow> Inr \<lparr>akh_keyword = keyword, akh_headline = h\<rparr>
         | None \<Rightarrow> Inl (HeadlineGenerationFailed m))"
      by (simp add: gen_ad_keyword_headline_def split: option.split)
  qed
  have sound: "\<forall>r. gen_ad_keyword_headline svc content keyword (Some m) (Some existing) = Inr r \<longrightarrow>
      akh_keyword r = keyword \<and> length (akh_headline r) \<le> 29 \<and> akh_headline r \<notin> set existing"
    by (auto simp: gen_ad_keyword_headline_def split: option.splits dest: generation_loop_sound)
  have defaults:
    "gen_ad_keyword_headline svc content keyword None existing_arg =
       gen_ad_keyword_headline svc content keyword (Some 5) existing_arg"
    "gen_ad_keyword_headline svc content keyword max_retries_arg None =
       gen_ad_keyword_headline svc content keyword max_retries_arg (Some [])"
    by (simp_all add: gen_ad_keyword_headline_def)
  from run sound defaults show ?thesis by (intro conjI)
qed

text \<open>
  A service whose first response is one over-long headline and whose later responses
  are short: with bound 2 the second request gives the headline; with both short
  headlines already existing, or with bound 1, the loop ends in the failure.
\<close>

theorem gen_ad_keyword_headline_spec_witness:
  "gen_ad_keyword_headline example_service (lit ''We sell boots'') (lit ''boots'') (Some 2) (Some []) =
     Inr \<lparr>akh_keyword = lit ''boots'', akh_headline = lit ''Short One''\<rparr> \<and>
   gen_ad_keyword_headline example_service (lit ''We sell boots'') (lit ''boots'') (Some 2)
     (Some [lit ''Short One'', lit ''Other One'']) = Inl (HeadlineGenerationFailed 2) \<and>
   gen_ad_keyword_headline example_service (lit ''We sell boots'') (lit ''boots'') (Some 1) (Some []) =
     Inl (HeadlineGenerationFailed 1)"
proof -
  have served: "\<forall>j < nat m. example_service j (lit ''We sell boots'') (lit ''boots'') m =
      Inr (example_responses j)" for m
    by (simp add: example_service_def)
  have two: "[0..<nat 2] = [0, 1]" and one: "[0..<nat 1] = [0]"
    by (simp_all add: upt_conv_Cons)
  note first = gen_ad_keyword_headline_spec
      [of 2 example_service "lit ''We sell boots''" "lit ''boots''" example_responses "[]",
        THEN conjunct1, THEN mp, OF served]
  note second = gen_ad_keyword_headline_spec
      [of 2 example_service "lit ''We sell boots''" "lit ''boots''" example_responses
        "[lit ''Short One'', lit ''Other One'']", THEN conjunct1, THEN mp, OF served]
  note third = gen_ad_keyword_headline_spec
      [of 1 example_service "lit ''We sell boots''" "lit ''boots''" example_responses "[]",
        THEN conjunct1, THEN mp, OF served]
  show ?thesis
    unfolding first second third two one
    by (simp add: example_responses_def lit_def)
qed

end
